theory Spec2Isabelle
  imports Main
begin

section \<open>Python values and exceptions\<close>

text \<open>
  The module \<^verbatim>\<open>sysbrokers/IB/ibConnection.py\<close> is dynamically typed. The values that
  travel through the configuration code are Python objects; three kinds are enough for the
  names the module looks up: \<^verbatim>\<open>None\<close>, integers (unbounded) and strings.
\<close>

datatype pyval = PyNone | PyInt int | PyStr string

text \<open>Every exception the modelled code can raise is a value; \<open>Inl\<close> carries it.\<close>

datatype error = AttributeError | TypeError | ValueError | DuplicateKeyError | OSError

section \<open>The shared collection \<^verbatim>\<open>IBClientTracker\<close> and the log\<close>

text \<open>
  A document of the collection is \<^verbatim>\<open>{client_id: n}\<close>; the collection is kept as the list
  of the \<^verbatim>\<open>client_id\<close> fields in storage order. The log receives one entry per call of
  \<^verbatim>\<open>log.msg\<close> or \<^verbatim>\<open>log.warn\<close>:
  \<^item> \<open>Msg_Terminating\<close> is \<^verbatim>\<open>"Terminating %s" % str(self._ib_connection_config)\<close>,
  \<^item> \<open>Warn_disconnect_failed\<close> is
    \<^verbatim>\<open>"Trying to disconnect IB client failed... ensure process is killed"\<close>,
  \<^item> \<open>Msg_Locked_ID n\<close> is \<^verbatim>\<open>"Locked ID %d" % n\<close>,
  \<^item> \<open>Msg_Released_all_IDs\<close> is \<^verbatim>\<open>"Released all IDs"\<close>,
  \<^item> \<open>Msg_Released_ID n\<close> is \<^verbatim>\<open>"Released ID %d" % n\<close>.
\<close>

datatype log_entry =
    Msg_Terminating pyval pyval int
  | Warn_disconnect_failed
  | Msg_Locked_ID int
  | Msg_Released_all_IDs
  | Msg_Released_ID int

record mongo =
  collection :: "int list"
  logged :: "log_entry list"

text \<open>
  Modelled from the spec: the class \<^verbatim>\<open>mongoConnection\<close> and the index it creates with
  \<^verbatim>\<open>create_index("client_id")\<close> are not part of the module. The spec (4.1, LockTable) gives
  the operations: \<^verbatim>\<open>insert\<close> fails with \<^verbatim>\<open>DuplicateKey\<close> if a record for that ID
  already exists and otherwise persists it; \<^verbatim>\<open>delete\<close> removes the record if present and
  is no error if absent; \<^verbatim>\<open>delete_all\<close> removes every record.
\<close>

definition insert_one :: "int \<Rightarrow> int list \<Rightarrow> error + int list" where
  "insert_one client_id coll =
     (if client_id \<in> set coll then Inl DuplicateKeyError else Inr (coll @ [client_id]))"

definition delete_one :: "int \<Rightarrow> int list \<Rightarrow> int list" where
  "delete_one client_id coll = remove1 client_id coll"

definition delete_many_all :: "int list \<Rightarrow> int list" where
  "delete_many_all coll = []"

section \<open>Python built-ins used by the allocator\<close>

text \<open>\<^verbatim>\<open>range(start, stop)\<close>: the integers from \<open>start\<close> up to \<open>stop - 1\<close>.\<close>

definition range_py :: "int \<Rightarrow> int \<Rightarrow> int list" where
  "range_py start stop = [start .. stop - 1]"

text \<open>\<^verbatim>\<open>max\<close> of a list and \<^verbatim>\<open>min\<close> of a set raise \<^verbatim>\<open>ValueError\<close> on an empty argument.\<close>

fun max_py :: "int list \<Rightarrow> error + int" where
  "max_py [] = Inl ValueError"
| "max_py (x # xs) = Inr (fold max xs x)"

definition min_py :: "int set \<Rightarrow> error + int" where
  "min_py A = (if A = {} then Inl ValueError else Inr (Min A))"

section \<open>\<^verbatim>\<open>class mongoIBclientIDtracker\<close>\<close>

text \<open>
  The tracker object holds \<^verbatim>\<open>self._idoffset\<close>, passed to each method below as
  \<open>idoffset\<close>, and a handle on the collection and the log, passed as the state \<open>s\<close>.
  A leading underscore of a Python name is written \<open>underscore_\<close>.
\<close>

definition underscore_get_list_of_clientids :: "mongo \<Rightarrow> int list" where
  "underscore_get_list_of_clientids s = map (\<lambda>db_entry. db_entry) (collection s)"

definition underscore_is_clientid_used :: "int \<Rightarrow> mongo \<Rightarrow> bool" where
  "underscore_is_clientid_used clientid s =
     (let current_ids = underscore_get_list_of_clientids s
      in if clientid \<in> set current_ids then True else False)"

definition underscore_add_clientid :: "int \<Rightarrow> mongo \<Rightarrow> error + mongo" where
  "underscore_add_clientid next_id s =
     (case insert_one next_id (collection s) of
        Inl e \<Rightarrow> Inl e
      | Inr coll \<Rightarrow> Inr (s\<lparr>collection := coll, logged := logged s @ [Msg_Locked_ID next_id]\<rparr>))"

text \<open>
  Lines 193 to 198 of \<^verbatim>\<open>get_next_clientid\<close>: the candidate computed from the list that
  was read.
\<close>

definition next_id_from :: "int \<Rightarrow> int list \<Rightarrow> error + int" where
  "next_id_from idoffset current_list =
     (if length current_list = 0 then Inr idoffset
      else (case max_py current_list of
              Inl e \<Rightarrow> Inl e
            | Inr hi \<Rightarrow>
                (let full_set = set (range_py idoffset (hi + 2));
                     missing_values = full_set - set current_list
                 in min_py missing_values)))"

definition get_next_clientid :: "int \<Rightarrow> mongo \<Rightarrow> error + (int \<times> mongo)" where
  "get_next_clientid idoffset s =
     (let current_list = underscore_get_list_of_clientids s
      in case next_id_from idoffset current_list of
           Inl e \<Rightarrow> Inl e
         | Inr next_id \<Rightarrow>
             (case underscore_add_clientid next_id s of
                Inl e \<Rightarrow> Inl e
              | Inr s' \<Rightarrow> Inr (next_id, s')))"

text \<open>
  Attribute lookup on a tracker object, for the names that are called with a client id and
  answer a truth value. The class defines \<^verbatim>\<open>_is_clientid_used\<close> and no other such method;
  it has the base class \<^verbatim>\<open>object\<close> and no \<^verbatim>\<open>__getattr__\<close>, so any other name is
  not found.
\<close>

definition mongoIBclientIDtracker_getattr :: "string \<Rightarrow> (int \<Rightarrow> mongo \<Rightarrow> bool) option" where
  "mongoIBclientIDtracker_getattr name =
     (if name = ''_is_clientid_used'' then Some underscore_is_clientid_used else None)"

definition return_valid_client_id :: "int \<Rightarrow> int option \<Rightarrow> mongo \<Rightarrow> error + (int \<times> mongo)" where
  "return_valid_client_id idoffset clientid_to_try s =
     (case clientid_to_try of
        None \<Rightarrow> get_next_clientid idoffset s
      | Some c \<Rightarrow>
          (case mongoIBclientIDtracker_getattr ''is_clientid_used'' of
             None \<Rightarrow> Inl AttributeError
           | Some is_clientid_used \<Rightarrow>
               if is_clientid_used c s then get_next_clientid idoffset s
               else (case underscore_add_clientid c s of
                       Inl e \<Rightarrow> Inl e
                     | Inr s' \<Rightarrow> Inr (c, s'))))"

definition clear_all_clientids :: "mongo \<Rightarrow> error + mongo" where
  "clear_all_clientids s =
     Inr (s\<lparr>collection := delete_many_all (collection s),
            logged := logged s @ [Msg_Released_all_IDs]\<rparr>)"

definition release_clientid :: "int \<Rightarrow> mongo \<Rightarrow> error + mongo" where
  "release_clientid clientid s =
     Inr (s\<lparr>collection := delete_one clientid (collection s),
            logged := logged s @ [Msg_Released_ID clientid]\<rparr>)"

text \<open>
  Other processes share the collection. Between the read (line 192) and the insert
  (line 201) of \<^verbatim>\<open>get_next_clientid\<close> they may change it: \<open>others\<close> is what they do to
  the collection in that interval. With \<open>others\<close> the identity this is
  \<open>get_next_clientid\<close>.
\<close>

definition get_next_clientid_among ::
  "int \<Rightarrow> (int list \<Rightarrow> int list) \<Rightarrow> mongo \<Rightarrow> error + (int \<times> mongo)" where
  "get_next_clientid_among idoffset others s =
     (let current_list = underscore_get_list_of_clientids s
      in case next_id_from idoffset current_list of
           Inl e \<Rightarrow> Inl e
         | Inr next_id \<Rightarrow>
             (case underscore_add_clientid next_id (s\<lparr>collection := others (collection s)\<rparr>) of
                Inl e \<Rightarrow> Inl e
              | Inr s' \<Rightarrow> Inr (next_id, s')))"

section \<open>\<^verbatim>\<open>ib_defaults\<close>\<close>

definition DEFAULT_IB_IPADDRESS :: pyval where
  "DEFAULT_IB_IPADDRESS = PyStr ''127.0.0.1''"

definition DEFAULT_IB_PORT :: pyval where
  "DEFAULT_IB_PORT = PyInt 4001"

definition DEFAULT_IB_IDOFFSET :: pyval where
  "DEFAULT_IB_IDOFFSET = PyInt 1"

text \<open>
  What \<^verbatim>\<open>yaml.load\<close> hands back is a dictionary or some other object (\<^verbatim>\<open>None\<close> for an
  empty file, a scalar, a list). The keys looked up are strings, so a dictionary is a map
  from strings. An object that is no dictionary supports neither item assignment
  (\<^verbatim>\<open>TypeError\<close>) nor \<^verbatim>\<open>.get\<close> (\<^verbatim>\<open>AttributeError\<close>).
\<close>

datatype yaml_value = YDict "string \<Rightarrow> pyval option" | YNotDict

text \<open>
  The configuration file as the \<^verbatim>\<open>try\<close> block meets it: \<open>Unreadable\<close> when
  \<^verbatim>\<open>open\<close> or \<^verbatim>\<open>yaml.load\<close> raises (the file is missing or cannot be parsed),
  \<open>Parsed v\<close> when \<^verbatim>\<open>yaml.load\<close> returns \<open>v\<close>.
\<close>

datatype config_file = Unreadable | Parsed yaml_value

definition load_config :: "config_file \<Rightarrow> yaml_value" where
  "load_config config_file =
     (case config_file of
        Parsed yaml_dict \<Rightarrow> yaml_dict
      | Unreadable \<Rightarrow> YDict Map.empty)"

text \<open>\<^verbatim>\<open>kwargs.get(arg_name, None)\<close>, \<^verbatim>\<open>yaml_dict[key] = value\<close> and \<^verbatim>\<open>yaml_dict.get(key, default)\<close>.\<close>

definition kwargs_get :: "(string \<Rightarrow> pyval option) \<Rightarrow> string \<Rightarrow> pyval" where
  "kwargs_get kwargs arg_name = (case kwargs arg_name of None \<Rightarrow> PyNone | Some v \<Rightarrow> v)"

fun setitem :: "yaml_value \<Rightarrow> string \<Rightarrow> pyval \<Rightarrow> error + yaml_value" where
  "setitem (YDict d) key v = Inr (YDict (d(key \<mapsto> v)))"
| "setitem YNotDict key v = Inl TypeError"

fun dict_get :: "yaml_value \<Rightarrow> string \<Rightarrow> pyval \<Rightarrow> error + pyval" where
  "dict_get (YDict d) key dflt = Inr (case d key of None \<Rightarrow> dflt | Some v \<Rightarrow> v)"
| "dict_get YNotDict key dflt = Inl AttributeError"

text \<open>The loop over \<^verbatim>\<open>['ipaddress', 'port', 'idoffset']\<close>.\<close>

fun overwrite_with_arguments ::
  "(string \<Rightarrow> pyval option) \<Rightarrow> string list \<Rightarrow> yaml_value \<Rightarrow> error + yaml_value" where
  "overwrite_with_arguments kwargs [] yaml_dict = Inr yaml_dict"
| "overwrite_with_arguments kwargs (arg_name # rest) yaml_dict =
     (let arg_value = kwargs_get kwargs arg_name
      in if arg_value \<noteq> PyNone
         then (case setitem yaml_dict (''ib_'' @ arg_name) arg_value of
                 Inl e \<Rightarrow> Inl e
               | Inr yaml_dict' \<Rightarrow> overwrite_with_arguments kwargs rest yaml_dict')
         else overwrite_with_arguments kwargs rest yaml_dict)"

definition ib_defaults ::
  "config_file \<Rightarrow> (string \<Rightarrow> pyval option) \<Rightarrow> error + (pyval \<times> pyval \<times> pyval)" where
  "ib_defaults config_file kwargs =
     (let yaml_dict = load_config config_file
      in case overwrite_with_arguments kwargs [''ipaddress'', ''port'', ''idoffset''] yaml_dict of
           Inl e \<Rightarrow> Inl e
         | Inr yaml_dict \<Rightarrow>
             (case dict_get yaml_dict ''ib_ipaddress'' DEFAULT_IB_IPADDRESS of
                Inl e \<Rightarrow> Inl e
              | Inr ipaddress \<Rightarrow>
                  (case dict_get yaml_dict ''ib_port'' DEFAULT_IB_PORT of
                     Inl e \<Rightarrow> Inl e
                   | Inr port \<Rightarrow>
                       (case dict_get yaml_dict ''ib_idoffset'' DEFAULT_IB_IDOFFSET of
                          Inl e \<Rightarrow> Inl e
                        | Inr idoffset \<Rightarrow> Inr (ipaddress, port, idoffset)))))"

text \<open>
  The precedence in the words of the specification, for one field: an argument that is
  passed and not absent, else the value of the configuration file, else the default.
  \<open>argument\<close> is the entry of the keyword arguments for the field: \<open>None\<close> when the
  caller passes none, \<open>Some PyNone\<close> when the caller passes \<^verbatim>\<open>None\<close>.
\<close>

definition by_precedence :: "pyval option \<Rightarrow> pyval option \<Rightarrow> pyval \<Rightarrow> pyval" where
  "by_precedence argument file_value dflt =
     (case argument of
        Some a \<Rightarrow>
          (if a \<noteq> PyNone then a
           else (case file_value of Some v \<Rightarrow> v | None \<Rightarrow> dflt))
      | None \<Rightarrow> (case file_value of Some v \<Rightarrow> v | None \<Rightarrow> dflt))"

section \<open>\<^verbatim>\<open>mongoIBclientIDtracker.__init__\<close> and \<^verbatim>\<open>class connectionIB\<close>\<close>

text \<open>
  The constructor of the tracker, as far as \<^verbatim>\<open>self._idoffset\<close> goes. Both calls of
  \<^verbatim>\<open>ib_defaults\<close> made while a connection is built read the file of the same name,
  \<^verbatim>\<open>PRIVATE_CONFIG_FILE\<close>; \<open>config_file\<close> is what they find there.
\<close>

definition mongoIBclientIDtracker_init :: "config_file \<Rightarrow> pyval \<Rightarrow> error + pyval" where
  "mongoIBclientIDtracker_init config_file idoffset =
     (if idoffset = PyNone
      then (case ib_defaults config_file Map.empty of
              Inl e \<Rightarrow> Inl e
            | Inr (notused_ipaddress, notused_port, idoffset') \<Rightarrow> Inr idoffset')
      else Inr idoffset)"

text \<open>
  The allocator works on integers. With an \<^verbatim>\<open>_idoffset\<close> that is no integer,
  \<^verbatim>\<open>get_next_clientid\<close> raises \<^verbatim>\<open>TypeError\<close> (in \<^verbatim>\<open>range\<close>, or in
  \<^verbatim>\<open>"Locked ID %d" % next_id\<close> when the collection is empty), and a requested ID fails
  before that at the undefined name.
\<close>

definition tracker_return_valid_client_id ::
  "pyval \<Rightarrow> int option \<Rightarrow> mongo \<Rightarrow> error + (int \<times> mongo)" where
  "tracker_return_valid_client_id tracker_idoffset clientid_to_try s =
     (case tracker_idoffset of
        PyInt idoffset \<Rightarrow> return_valid_client_id idoffset clientid_to_try s
      | PyNone \<Rightarrow> (case clientid_to_try of None \<Rightarrow> Inl TypeError | Some c \<Rightarrow> Inl AttributeError)
      | PyStr v \<Rightarrow> (case clientid_to_try of None \<Rightarrow> Inl TypeError | Some c \<Rightarrow> Inl AttributeError))"

record ib_connection_config =
  config_ipaddress :: pyval
  config_port :: pyval
  config_client :: int

text \<open>
  A connection object: \<^verbatim>\<open>self._ib_connection_config\<close>, the \<^verbatim>\<open>_idoffset\<close> of
  \<^verbatim>\<open>self.db_id_tracker\<close>, and the \<^verbatim>\<open>reqIDoffset\<close> handed to \<^verbatim>\<open>ibClient.__init__\<close>.
\<close>

record connectionIB =
  underscore_ib_connection_config :: ib_connection_config
  db_id_tracker :: pyval
  reqIDoffset :: int

text \<open>Lines 73 and 81 of \<^verbatim>\<open>connectionIB.__init__\<close>: the defaults and the tracker.\<close>

definition connectionIB_db_id_tracker ::
  "config_file \<Rightarrow> pyval \<Rightarrow> pyval \<Rightarrow> error + (pyval \<times> pyval \<times> pyval)" where
  "connectionIB_db_id_tracker config_file ipaddress port =
     (case ib_defaults config_file [''ipaddress'' \<mapsto> ipaddress, ''port'' \<mapsto> port] of
        Inl e \<Rightarrow> Inl e
      | Inr (ipaddress', port', idoffset) \<Rightarrow>
          (case mongoIBclientIDtracker_init config_file idoffset of
             Inl e \<Rightarrow> Inl e
           | Inr tracker_idoffset \<Rightarrow> Inr (ipaddress', port', tracker_idoffset)))"

text \<open>
  \<^verbatim>\<open>connectionIB.__init__\<close> up to line 93, where the connection has its client id and
  has handed \<^verbatim>\<open>reqIDoffset\<close> to the protocol client. The calls after that
  (\<^verbatim>\<open>broker_init_error\<close>, \<^verbatim>\<open>connect\<close>, the thread) belong to the classes
  \<^verbatim>\<open>ibClient\<close> and \<^verbatim>\<open>ibServer\<close>.
\<close>

definition connectionIB_init ::
  "config_file \<Rightarrow> int option \<Rightarrow> pyval \<Rightarrow> pyval \<Rightarrow> mongo \<Rightarrow> error + (connectionIB \<times> mongo)" where
  "connectionIB_init config_file client ipaddress port s =
     (case connectionIB_db_id_tracker config_file ipaddress port of
        Inl e \<Rightarrow> Inl e
      | Inr (ipaddress', port', tracker_idoffset) \<Rightarrow>
          (case tracker_return_valid_client_id tracker_idoffset client s of
             Inl e \<Rightarrow> Inl e
           | Inr (client', s') \<Rightarrow>
               Inr (\<lparr>underscore_ib_connection_config =
                       \<lparr>config_ipaddress = ipaddress', config_port = port', config_client = client'\<rparr>,
                     db_id_tracker = tracker_idoffset,
                     reqIDoffset = client' * 1000\<rparr>, s')))"

text \<open>
  \<^verbatim>\<open>close_connection\<close>. \<open>disconnect\<close> is how the call \<^verbatim>\<open>self.disconnect()\<close> of the
  protocol client ends: \<open>Inr ()\<close> when it returns, \<open>Inl e\<close> when it raises \<open>e\<close>. The bare
  \<^verbatim>\<open>except\<close> takes every exception and logs the warning; the \<^verbatim>\<open>finally\<close> block runs
  after either.
\<close>

definition close_connection :: "connectionIB \<Rightarrow> error + unit \<Rightarrow> mongo \<Rightarrow> error + mongo" where
  "close_connection self disconnect s =
     (let cfg = underscore_ib_connection_config self;
          s1 = s\<lparr>logged := logged s @
                  [Msg_Terminating (config_ipaddress cfg) (config_port cfg) (config_client cfg)]\<rparr>;
          s2 = (case disconnect of
                  Inr u \<Rightarrow> s1
                | Inl e \<Rightarrow> s1\<lparr>logged := logged s1 @ [Warn_disconnect_failed]\<rparr>)
      in release_clientid (config_client cfg) s2)"

text \<open>The IDs of the \<^verbatim>\<open>release_clientid\<close> calls a log records, in order.\<close>

fun released :: "log_entry list \<Rightarrow> int list" where
  "released [] = []"
| "released (Msg_Released_ID n # es) = n # released es"
| "released (e # es) = released es"

section \<open>Facts about the built-ins and the candidate\<close>

lemma max_py_Max: "xs \<noteq> [] \<Longrightarrow> max_py xs = Inr (Max (set xs))"
proof (cases xs)
  case Nil
  assume "xs \<noteq> []"
  with Nil show ?thesis by simp
next
  case (Cons a list)
  have "fold max list a = Max (set (a # list))"
    by (rule Max.set_eq_fold [symmetric])
  with Cons show ?thesis by simp
qed

lemma range_py_set: "set (range_py start (hi + 2)) = {start .. hi + 1}"
  by (simp add: range_py_def)

lemma candidates_empty_iff:
  assumes "(xs :: int list) \<noteq> []"
  shows "{idoffset .. Max (set xs) + 1} - set xs = {} \<longleftrightarrow> Max (set xs) + 1 < idoffset"
proof
  assume e: "{idoffset .. Max (set xs) + 1} - set xs = {}"
  show "Max (set xs) + 1 < idoffset"
  proof (rule ccontr)
    assume "\<not> Max (set xs) + 1 < idoffset"
    then have "Max (set xs) + 1 \<in> {idoffset .. Max (set xs) + 1}"
      by simp
    moreover have "Max (set xs) + 1 \<notin> set xs"
    proof
      assume "Max (set xs) + 1 \<in> set xs"
      then have "Max (set xs) + 1 \<le> Max (set xs)" by (intro Max_ge) simp_all
      then show False by simp
    qed
    ultimately show False using e by blast
  qed
next
  assume "Max (set xs) + 1 < idoffset"
  then show "{idoffset .. Max (set xs) + 1} - set xs = {}"
    by simp
qed

lemma next_id_from_nonempty:
  assumes "xs \<noteq> []"
  shows "next_id_from idoffset xs =
           (if Max (set xs) + 1 < idoffset then Inl ValueError
            else Inr (Min ({idoffset .. Max (set xs) + 1} - set xs)))"
  using assms candidates_empty_iff [OF assms, of idoffset]
  by (simp add: next_id_from_def max_py_Max min_py_def range_py_set)

lemma next_id_from_not_held:
  assumes h: "next_id_from idoffset xs = Inr n"
  shows "n \<notin> set xs"
proof (cases "xs = []")
  case True
  then show ?thesis by simp
next
  case False
  let ?A = "{idoffset .. Max (set xs) + 1} - set xs"
  from h False have ne: "\<not> Max (set xs) + 1 < idoffset" and n: "n = Min ?A"
    by (simp_all add: next_id_from_nonempty split: if_splits)
  have "?A \<noteq> {}"
    using candidates_empty_iff [OF False, of idoffset] ne by simp
  then have "Min ?A \<in> ?A" by (intro Min_in) simp_all
  then show ?thesis using n by simp
qed

lemma add_clientid_fresh:
  "n \<notin> set (collection s) \<Longrightarrow>
   underscore_add_clientid n s =
     Inr (s\<lparr>collection := collection s @ [n], logged := logged s @ [Msg_Locked_ID n]\<rparr>)"
  by (simp add: underscore_add_clientid_def insert_one_def)

lemma add_clientid_held:
  "n \<in> set (collection s) \<Longrightarrow> underscore_add_clientid n s = Inl DuplicateKeyError"
  by (simp add: underscore_add_clientid_def insert_one_def)

text \<open>
  Run by one process alone, the insert of \<^verbatim>\<open>get_next_clientid\<close> never meets a duplicate:
  the candidate is not among the IDs read.
\<close>

lemma get_next_clientid_eq:
  "get_next_clientid idoffset s =
     (case next_id_from idoffset (collection s) of
        Inl e \<Rightarrow> Inl e
      | Inr n \<Rightarrow> Inr (n, s\<lparr>collection := collection s @ [n],
                           logged := logged s @ [Msg_Locked_ID n]\<rparr>))"
proof (cases "next_id_from idoffset (collection s)")
  case (Inl e)
  then show ?thesis
    by (simp add: get_next_clientid_def underscore_get_list_of_clientids_def)
next
  case (Inr n)
  then have "n \<notin> set (collection s)" by (rule next_id_from_not_held)
  with Inr show ?thesis
    by (simp add: get_next_clientid_def underscore_get_list_of_clientids_def add_clientid_fresh)
qed

lemma get_next_clientid_among_id:
  "get_next_clientid_among idoffset (\<lambda>coll. coll) s = get_next_clientid idoffset s"
proof -
  show ?thesis
    by (simp add: get_next_clientid_among_def get_next_clientid_def cong: sum.case_cong)
qed

text \<open>
  Where the held IDs reach up to \<open>idoffset - 1\<close> or beyond (or none is held),
  \<^verbatim>\<open>get_next_clientid\<close> returns the lowest free ID from \<open>idoffset\<close> on and locks it.
\<close>

lemma get_next_clientid_lowest_free:
  assumes "collection s = [] \<or> idoffset \<le> Max (set (collection s)) + 1"
  shows "get_next_clientid idoffset s =
           Inr (if collection s = [] then idoffset
                else Min ({idoffset .. Max (set (collection s)) + 1} - set (collection s)),
                s\<lparr>collection := collection s @
                       [if collection s = [] then idoffset
                        else Min ({idoffset .. Max (set (collection s)) + 1} - set (collection s))],
                  logged := logged s @
                       [Msg_Locked_ID (if collection s = [] then idoffset
                        else Min ({idoffset .. Max (set (collection s)) + 1} - set (collection s)))]\<rparr>)"
proof (cases "collection s = []")
  case True
  then show ?thesis by (simp add: get_next_clientid_eq next_id_from_def)
next
  case False
  with assms have "\<not> Max (set (collection s)) + 1 < idoffset" by simp
  with False show ?thesis by (simp add: get_next_clientid_eq next_id_from_nonempty)
qed

lemma get_next_clientid_minimality_example:
  "get_next_clientid idoffset \<lparr>collection = [idoffset, idoffset + 1, idoffset + 3], logged = []\<rparr> =
     Inr (idoffset + 2,
          \<lparr>collection = [idoffset, idoffset + 1, idoffset + 3, idoffset + 2],
           logged = [Msg_Locked_ID (idoffset + 2)]\<rparr>)"
proof -
  have m: "Max {idoffset, idoffset + 1, idoffset + 3} = idoffset + 3"
    by simp
  have "{idoffset .. idoffset + 3 + 1} = {idoffset, idoffset + 1, idoffset + 2, idoffset + 3, idoffset + 4}"
    by auto
  then have "{idoffset .. idoffset + 3 + 1} - {idoffset, idoffset + 1, idoffset + 3}
               = {idoffset + 2, idoffset + 4}"
    by auto
  then have "Min ({idoffset .. idoffset + 3 + 1} - {idoffset, idoffset + 1, idoffset + 3})
               = idoffset + 2"
    by simp
  then show ?thesis
    using get_next_clientid_lowest_free
            [of "\<lparr>collection = [idoffset, idoffset + 1, idoffset + 3], logged = []\<rparr>" idoffset] m
    by simp
qed

lemma get_next_clientid_offset_floor_example:
  "get_next_clientid 5 \<lparr>collection = [], logged = []\<rparr> =
     Inr (5, \<lparr>collection = [5], logged = [Msg_Locked_ID 5]\<rparr>)"
  by (simp add: get_next_clientid_eq next_id_from_def)

lemma return_valid_client_id_requested:
  "return_valid_client_id idoffset (Some c) s = Inl AttributeError"
  by (simp add: return_valid_client_id_def mongoIBclientIDtracker_getattr_def)

section \<open>Facts about the configuration and the connection\<close>

lemma ib_defaults_dict:
  "load_config config_file = YDict d \<Longrightarrow>
   ib_defaults config_file kwargs =
     Inr (by_precedence (kwargs ''ipaddress'') (d ''ib_ipaddress'') (PyStr ''127.0.0.1''),
          by_precedence (kwargs ''port'') (d ''ib_port'') (PyInt 4001),
          by_precedence (kwargs ''idoffset'') (d ''ib_idoffset'') (PyInt 1))"
  by (simp add: ib_defaults_def by_precedence_def kwargs_get_def Let_def
        DEFAULT_IB_IPADDRESS_def DEFAULT_IB_PORT_def DEFAULT_IB_IDOFFSET_def
      split: option.splits)

text \<open>
  A file whose content is no dictionary (an empty file gives \<^verbatim>\<open>None\<close>) is read without
  an exception, so the \<^verbatim>\<open>except\<close> clause does not replace it, and the code after it
  raises.
\<close>

lemma ib_defaults_not_dict:
  "load_config config_file = YNotDict \<Longrightarrow>
   ib_defaults config_file kwargs =
     Inl (if (\<exists>v. kwargs ''ipaddress'' = Some v \<and> v \<noteq> PyNone)
             \<or> (\<exists>v. kwargs ''port'' = Some v \<and> v \<noteq> PyNone)
             \<or> (\<exists>v. kwargs ''idoffset'' = Some v \<and> v \<noteq> PyNone)
          then TypeError else AttributeError)"
  by (auto simp add: ib_defaults_def kwargs_get_def Let_def split: option.splits)

text \<open>
  On a file whose content is a dictionary, and on a file that is missing or cannot be
  parsed, \<^verbatim>\<open>ib_defaults\<close> resolves each field by the precedence of the specification;
  the unreadable file gives what the empty dictionary gives.
\<close>

lemma ib_defaults_precedence_on_dict:
  "ib_defaults (Parsed (YDict d)) kwargs =
     Inr (by_precedence (kwargs ''ipaddress'') (d ''ib_ipaddress'') (PyStr ''127.0.0.1''),
          by_precedence (kwargs ''port'') (d ''ib_port'') (PyInt 4001),
          by_precedence (kwargs ''idoffset'') (d ''ib_idoffset'') (PyInt 1))
   \<and> ib_defaults Unreadable kwargs = ib_defaults (Parsed (YDict Map.empty)) kwargs
   \<and> ib_defaults Unreadable kwargs =
       Inr (by_precedence (kwargs ''ipaddress'') None (PyStr ''127.0.0.1''),
            by_precedence (kwargs ''port'') None (PyInt 4001),
            by_precedence (kwargs ''idoffset'') None (PyInt 1))"
  by (simp add: ib_defaults_dict load_config_def)

lemma ib_defaults_precedence_example:
  "ib_defaults (Parsed (YDict [''ib_ipaddress'' \<mapsto> PyStr ''192.168.0.2'', ''ib_port'' \<mapsto> PyInt 7496]))
     [''port'' \<mapsto> PyInt 7497, ''idoffset'' \<mapsto> PyInt 9]
   = Inr (PyStr ''192.168.0.2'', PyInt 7497, PyInt 9)
   \<and> ib_defaults Unreadable [''ipaddress'' \<mapsto> PyNone, ''port'' \<mapsto> PyInt 7497]
   = Inr (PyStr ''127.0.0.1'', PyInt 7497, PyInt 1)"
  by (simp add: ib_defaults_def load_config_def kwargs_get_def Let_def
        DEFAULT_IB_IPADDRESS_def DEFAULT_IB_PORT_def DEFAULT_IB_IDOFFSET_def)

lemma connectionIB_db_id_tracker_dict:
  "load_config config_file = YDict d \<Longrightarrow>
   connectionIB_db_id_tracker config_file ipaddress port =
     Inr (by_precedence (Some ipaddress) (d ''ib_ipaddress'') (PyStr ''127.0.0.1''),
          by_precedence (Some port) (d ''ib_port'') (PyInt 4001),
          (case d ''ib_idoffset'' of None \<Rightarrow> DEFAULT_IB_IDOFFSET | Some v \<Rightarrow> v))"
  by (simp add: connectionIB_db_id_tracker_def ib_defaults_dict mongoIBclientIDtracker_init_def
        by_precedence_def DEFAULT_IB_IDOFFSET_def split: option.splits)

lemma connectionIB_db_id_tracker_not_dict:
  "load_config config_file = YNotDict \<Longrightarrow>
   \<exists>e. connectionIB_db_id_tracker config_file ipaddress port = Inl e"
  by (simp add: connectionIB_db_id_tracker_def ib_defaults_not_dict)

lemma connectionIB_db_id_tracker_idoffset:
  assumes "connectionIB_db_id_tracker config_file ipaddress port = Inr (a, p, idoffset)"
  shows "\<exists>d. load_config config_file = YDict d
             \<and> idoffset = (case d ''ib_idoffset'' of None \<Rightarrow> DEFAULT_IB_IDOFFSET | Some v \<Rightarrow> v)"
proof (cases "load_config config_file")
  case (YDict d)
  with assms show ?thesis by (simp add: connectionIB_db_id_tracker_dict)
next
  case YNotDict
  with assms connectionIB_db_id_tracker_not_dict [OF YNotDict, of ipaddress port]
  show ?thesis by simp
qed

lemma connectionIB_init_Inr:
  assumes "connectionIB_init config_file client ipaddress port s = Inr (self, s')"
  shows "\<exists>a p. connectionIB_db_id_tracker config_file ipaddress port = Inr (a, p, db_id_tracker self)
              \<and> tracker_return_valid_client_id (db_id_tracker self) client s
                   = Inr (config_client (underscore_ib_connection_config self), s')
              \<and> reqIDoffset self = config_client (underscore_ib_connection_config self) * 1000"
  using assms
  by (auto simp add: connectionIB_init_def split: sum.splits prod.splits)

text \<open>
  With the defect of \<^verbatim>\<open>return_valid_client_id\<close>, no connection can be built with a client
  id of the caller's choice.
\<close>

lemma connectionIB_init_requested:
  "\<exists>e. connectionIB_init config_file (Some c) ipaddress port s = Inl e"
  by (auto simp add: connectionIB_init_def tracker_return_valid_client_id_def
        return_valid_client_id_requested split: sum.splits prod.splits pyval.splits)

lemma blocks_disjoint:
  "(c1::int) \<noteq> c2 \<Longrightarrow> {c1 * 1000 ..< c1 * 1000 + 1000} \<inter> {c2 * 1000 ..< c2 * 1000 + 1000} = {}"
  by auto

lemma released_append: "released (xs @ ys) = released xs @ released ys"
  by (induction xs rule: released.induct) simp_all

lemma remove1_keeps_others:
  "filter (\<lambda>d. d \<noteq> c) (remove1 c xs) = filter (\<lambda>d. d \<noteq> c) xs"
  by (induction xs) simp_all

text \<open>The unique index is kept by every operation of the tracker.\<close>

lemma add_clientid_distinct:
  "distinct (collection s) \<Longrightarrow> underscore_add_clientid n s = Inr s' \<Longrightarrow> distinct (collection s')"
  by (auto simp add: underscore_add_clientid_def insert_one_def split: if_splits)

lemma get_next_clientid_distinct:
  "distinct (collection s) \<Longrightarrow> get_next_clientid idoffset s = Inr (n, s') \<Longrightarrow>
   distinct (collection s')"
  by (auto simp add: get_next_clientid_def dest: add_clientid_distinct split: sum.splits)

lemma release_clientid_distinct:
  "distinct (collection s) \<Longrightarrow> release_clientid c s = Inr s' \<Longrightarrow> distinct (collection s')"
  by (auto simp add: release_clientid_def delete_one_def)

section \<open>The allocator: the claims\<close>

text \<open>
  C1. The claim: every call of \<^verbatim>\<open>get_next_clientid\<close> returns the configured offset when no
  ID is held and otherwise the lowest integer of \<open>{offset, ..., max(S)+1}\<close> that is not
  held, and locks it. The code misses the case of held IDs that all lie more than one below
  the offset. A tracker with offset 1 locks ID 1 in the empty collection; a tracker with
  offset 5 sharing that collection then builds the empty \<^verbatim>\<open>range(5, 3)\<close>, and
  \<^verbatim>\<open>min\<close> of the empty set raises \<^verbatim>\<open>ValueError\<close> where the lowest free ID from the
  offset on is 5.
\<close>

theorem get_next_clientid_held_below_offset:
  "get_next_clientid 1 \<lparr>collection = [], logged = []\<rparr>
     = Inr (1, \<lparr>collection = [1], logged = [Msg_Locked_ID 1]\<rparr>)
   \<and> get_next_clientid 5 \<lparr>collection = [1], logged = [Msg_Locked_ID 1]\<rparr> = Inl ValueError"
  by (simp add: get_next_clientid_eq next_id_from_def range_py_def min_py_def)

text \<open>
  C2. The claim: a requested ID that is not held is locked and returned unchanged. The code
  calls \<^verbatim>\<open>self.is_clientid_used\<close>, a name the class does not define (the method is
  \<^verbatim>\<open>_is_clientid_used\<close>): requesting ID 3 on the empty collection raises
  \<^verbatim>\<open>AttributeError\<close>.
\<close>

theorem return_valid_client_id_requested_free:
  "return_valid_client_id 1 (Some 3) \<lparr>collection = [], logged = []\<rparr> = Inl AttributeError"
  by (simp add: return_valid_client_id_def mongoIBclientIDtracker_getattr_def)

text \<open>
  C3. The claim: a requested ID that is held is silently replaced by the next free ID,
  without an error. By the same call of the undefined name, requesting the held ID 7
  raises \<^verbatim>\<open>AttributeError\<close>.
\<close>

theorem return_valid_client_id_requested_held:
  "return_valid_client_id 1 (Some 7) \<lparr>collection = [7], logged = []\<rparr> = Inl AttributeError"
  by (simp add: return_valid_client_id_def mongoIBclientIDtracker_getattr_def)

text \<open>
  C5. \<^verbatim>\<open>release_clientid\<close> always completes. It leaves the collection as it is when the ID
  is not held, leaves no record of the ID when the collection holds each ID at most once
  (the unique index), and keeps the records of all other IDs, in their order.
\<close>

theorem release_clientid_removes:
  "\<exists>s'. release_clientid clientid s = Inr s'
        \<and> (clientid \<notin> set (collection s) \<longrightarrow> collection s' = collection s)
        \<and> (distinct (collection s) \<longrightarrow> set (collection s') = set (collection s) - {clientid})
        \<and> filter (\<lambda>d. d \<noteq> clientid) (collection s') = filter (\<lambda>d. d \<noteq> clientid) (collection s)"
proof -
  have "filter (\<lambda>d. d \<noteq> clientid) (remove1 clientid xs) = filter (\<lambda>d. d \<noteq> clientid) xs" for xs
    by (induction xs) simp_all
  then show ?thesis
    by (simp add: release_clientid_def delete_one_def remove1_idem)
qed

theorem release_clientid_removes_witness:
  "(99 \<notin> set (collection \<lparr>collection = [], logged = []\<rparr>)
    \<and> distinct (collection \<lparr>collection = [], logged = []\<rparr>)
    \<and> release_clientid 99 \<lparr>collection = [], logged = []\<rparr>
        = Inr \<lparr>collection = [], logged = [Msg_Released_ID 99]\<rparr>)
   \<and> (distinct (collection \<lparr>collection = [4, 2, 3], logged = []\<rparr>)
    \<and> release_clientid 2 \<lparr>collection = [4, 2, 3], logged = []\<rparr>
        = Inr \<lparr>collection = [4, 3], logged = [Msg_Released_ID 2]\<rparr>)"
  using release_clientid_removes [of 99 "\<lparr>collection = [], logged = []\<rparr>"]
        release_clientid_removes [of 2 "\<lparr>collection = [4, 2, 3], logged = []\<rparr>"]
  by (simp add: release_clientid_def delete_one_def)

text \<open>
  C6. When another process has inserted the candidate between the read and the insert, the
  insert is rejected and \<^verbatim>\<open>get_next_clientid\<close> ends with that \<^verbatim>\<open>DuplicateKey\<close> failure:
  there is one read and one insert, no second computation.
\<close>

theorem get_next_clientid_no_retry:
  assumes "next_id_from idoffset (collection s) = Inr n"
    and "n \<in> set (others (collection s))"
  shows "get_next_clientid_among idoffset others s = Inl DuplicateKeyError"
  using assms
  by (simp add: get_next_clientid_among_def underscore_get_list_of_clientids_def add_clientid_held)

theorem get_next_clientid_no_retry_witness:
  "next_id_from 1 (collection \<lparr>collection = [], logged = []\<rparr>) = Inr 1
   \<and> 1 \<in> set ((\<lambda>coll. coll @ [1]) (collection \<lparr>collection = [], logged = []\<rparr>))
   \<and> get_next_clientid_among 1 (\<lambda>coll. coll @ [1]) \<lparr>collection = [], logged = []\<rparr>
       = Inl DuplicateKeyError
   \<and> get_next_clientid 1 \<lparr>collection = [1], logged = []\<rparr>
       = Inr (2, \<lparr>collection = [1, 2], logged = [Msg_Locked_ID 2]\<rparr>)"
proof -
  have a: "next_id_from 1 (collection \<lparr>collection = [], logged = []\<rparr>) = Inr 1"
    by (simp add: next_id_from_def)
  have b: "1 \<in> set ((\<lambda>coll. coll @ [1]) (collection \<lparr>collection = [], logged = []\<rparr>))"
    by simp
  have c: "get_next_clientid 1 \<lparr>collection = [1], logged = []\<rparr>
             = Inr (2, \<lparr>collection = [1, 2], logged = [Msg_Locked_ID 2]\<rparr>)"
    by code_simp
  show ?thesis
    using get_next_clientid_no_retry
            [where idoffset = 1 and s = "\<lparr>collection = [], logged = []\<rparr>" and n = 1
               and others = "\<lambda>coll. coll @ [1]"] a b c
    by simp
qed

text \<open>
  C9. \<^verbatim>\<open>get_next_clientid\<close> returns exactly when no ID is held or the highest held ID is at
  least \<open>idoffset - 1\<close>. When IDs are held and the highest is lower, the candidate
  \<^verbatim>\<open>range\<close> is empty and the call raises \<^verbatim>\<open>ValueError\<close>.
\<close>

theorem get_next_clientid_total_only_if:
  "(collection s \<noteq> [] \<and> Max (set (collection s)) + 1 < idoffset \<longrightarrow>
      set (range_py idoffset (Max (set (collection s)) + 2)) = {}
      \<and> get_next_clientid idoffset s = Inl ValueError)
   \<and> ((\<exists>r. get_next_clientid idoffset s = Inr r) \<longleftrightarrow>
        (collection s = [] \<or> idoffset - 1 \<le> Max (set (collection s))))"
proof (cases "collection s = []")
  case True
  then show ?thesis by (simp add: get_next_clientid_eq next_id_from_def)
next
  case False
  then show ?thesis
    by (auto simp add: get_next_clientid_eq next_id_from_nonempty range_py_def)
qed

theorem get_next_clientid_total_only_if_witness:
  "collection \<lparr>collection = [1], logged = []\<rparr> \<noteq> []
   \<and> Max (set (collection \<lparr>collection = [1], logged = []\<rparr>)) + 1 < 5
   \<and> set (range_py 5 (Max (set (collection \<lparr>collection = [1], logged = []\<rparr>)) + 2)) = {}
   \<and> get_next_clientid 5 \<lparr>collection = [1], logged = []\<rparr> = Inl ValueError
   \<and> \<not> (\<exists>r. get_next_clientid 5 \<lparr>collection = [1], logged = []\<rparr> = Inr r)"
  using get_next_clientid_total_only_if [of "\<lparr>collection = [1], logged = []\<rparr>" 5]
  by simp

section \<open>The configuration and the connection: the claims\<close>

text \<open>
  C7. The claim: \<^verbatim>\<open>ib_defaults\<close> returns the three fields, each resolved as the argument
  when one is passed and is not \<^verbatim>\<open>None\<close>, else the entry of the configuration file,
  else the default \<^verbatim>\<open>'127.0.0.1'\<close>, \<^verbatim>\<open>4001\<close>, \<^verbatim>\<open>1\<close>; a file that is missing or
  cannot be parsed counts as the empty configuration. The code does so for a file whose
  content is a dictionary and for the unreadable file. It misses the file that is read
  without an exception and holds no dictionary: for an empty file \<^verbatim>\<open>yaml.load\<close> returns
  \<^verbatim>\<open>None\<close>, the \<^verbatim>\<open>except\<close> clause does not replace it, and \<^verbatim>\<open>yaml_dict.get\<close>
  raises \<^verbatim>\<open>AttributeError\<close> where the file defines nothing and the defaults are due;
  with an argument passed, the assignment \<^verbatim>\<open>yaml_dict['ib_port'] = 7497\<close> raises
  \<^verbatim>\<open>TypeError\<close> where the argument is due.
\<close>

theorem ib_defaults_file_without_dictionary:
  "ib_defaults (Parsed YNotDict) Map.empty = Inl AttributeError
   \<and> ib_defaults (Parsed YNotDict) [''port'' \<mapsto> PyInt 7497] = Inl TypeError
   \<and> ib_defaults (Parsed (YDict Map.empty)) Map.empty
       = Inr (PyStr ''127.0.0.1'', PyInt 4001, PyInt 1)
   \<and> ib_defaults (Parsed (YDict Map.empty)) [''port'' \<mapsto> PyInt 7497]
       = Inr (PyStr ''127.0.0.1'', PyInt 7497, PyInt 1)"
  by (simp add: ib_defaults_def load_config_def kwargs_get_def Let_def
        DEFAULT_IB_IPADDRESS_def DEFAULT_IB_PORT_def DEFAULT_IB_IDOFFSET_def)

text \<open>
  C10. The \<^verbatim>\<open>idoffset\<close> that \<^verbatim>\<open>connectionIB.__init__\<close> hands to the tracker is the same
  for any two constructions on one configuration file, whatever client, address, port and
  log they are given: it is the file's \<^verbatim>\<open>ib_idoffset\<close>, or the default when the file has
  none.
\<close>

theorem connectionIB_idoffset_independent:
  "(connectionIB_db_id_tracker config_file ipaddress1 port1 = Inr (a1, p1, idoffset1)
      \<and> connectionIB_db_id_tracker config_file ipaddress2 port2 = Inr (a2, p2, idoffset2)
      \<longrightarrow> idoffset1 = idoffset2)
   \<and> (connectionIB_init config_file client1 ipaddress1 port1 s1 = Inr (self1, s1')
      \<and> connectionIB_init config_file client2 ipaddress2 port2 s2 = Inr (self2, s2')
      \<longrightarrow> db_id_tracker self1 = db_id_tracker self2)
   \<and> (load_config config_file = YDict d
      \<longrightarrow> (\<exists>a p. connectionIB_db_id_tracker config_file ipaddress1 port1 =
             Inr (a, p, case d ''ib_idoffset'' of None \<Rightarrow> DEFAULT_IB_IDOFFSET | Some v \<Rightarrow> v)))"
proof (intro conjI impI)
  assume "connectionIB_db_id_tracker config_file ipaddress1 port1 = Inr (a1, p1, idoffset1)
      \<and> connectionIB_db_id_tracker config_file ipaddress2 port2 = Inr (a2, p2, idoffset2)"
  then show "idoffset1 = idoffset2"
    by (auto dest!: connectionIB_db_id_tracker_idoffset)
next
  assume "connectionIB_init config_file client1 ipaddress1 port1 s1 = Inr (self1, s1')
      \<and> connectionIB_init config_file client2 ipaddress2 port2 s2 = Inr (self2, s2')"
  then show "db_id_tracker self1 = db_id_tracker self2"
    by (auto dest!: connectionIB_init_Inr connectionIB_db_id_tracker_idoffset)
next
  assume "load_config config_file = YDict d"
  then show "\<exists>a p. connectionIB_db_id_tracker config_file ipaddress1 port1 =
             Inr (a, p, case d ''ib_idoffset'' of None \<Rightarrow> DEFAULT_IB_IDOFFSET | Some v \<Rightarrow> v)"
    by (simp add: connectionIB_db_id_tracker_dict)
qed

theorem connectionIB_idoffset_independent_witness:
  "connectionIB_db_id_tracker (Parsed (YDict [''ib_idoffset'' \<mapsto> PyInt 7])) PyNone PyNone
     = Inr (PyStr ''127.0.0.1'', PyInt 4001, PyInt 7)
   \<and> connectionIB_db_id_tracker (Parsed (YDict [''ib_idoffset'' \<mapsto> PyInt 7]))
        (PyStr ''10.0.0.5'') (PyInt 7497)
     = Inr (PyStr ''10.0.0.5'', PyInt 7497, PyInt 7)
   \<and> connectionIB_init (Parsed (YDict [''ib_idoffset'' \<mapsto> PyInt 7])) None PyNone PyNone
        \<lparr>collection = [], logged = []\<rparr>
     = Inr (\<lparr>underscore_ib_connection_config =
               \<lparr>config_ipaddress = PyStr ''127.0.0.1'', config_port = PyInt 4001, config_client = 7\<rparr>,
             db_id_tracker = PyInt 7, reqIDoffset = 7000\<rparr>,
            \<lparr>collection = [7], logged = [Msg_Locked_ID 7]\<rparr>)
   \<and> connectionIB_init (Parsed (YDict [''ib_idoffset'' \<mapsto> PyInt 7])) None
        (PyStr ''10.0.0.5'') (PyInt 7497) \<lparr>collection = [7], logged = [Msg_Locked_ID 7]\<rparr>
     = Inr (\<lparr>underscore_ib_connection_config =
               \<lparr>config_ipaddress = PyStr ''10.0.0.5'', config_port = PyInt 7497, config_client = 8\<rparr>,
             db_id_tracker = PyInt 7, reqIDoffset = 8000\<rparr>,
            \<lparr>collection = [7, 8], logged = [Msg_Locked_ID 7, Msg_Locked_ID 8]\<rparr>)
   \<and> load_config (Parsed (YDict [''ib_idoffset'' \<mapsto> PyInt 7])) = YDict [''ib_idoffset'' \<mapsto> PyInt 7]"
proof -
  let ?cf = "Parsed (YDict [''ib_idoffset'' \<mapsto> PyInt 7])"
  let ?self1 =
    "\<lparr>underscore_ib_connection_config =
        \<lparr>config_ipaddress = PyStr ''127.0.0.1'', config_port = PyInt 4001, config_client = 7\<rparr>,
      db_id_tracker = PyInt 7, reqIDoffset = 7000\<rparr>"
  let ?self2 =
    "\<lparr>underscore_ib_connection_config =
        \<lparr>config_ipaddress = PyStr ''10.0.0.5'', config_port = PyInt 7497, config_client = 8\<rparr>,
      db_id_tracker = PyInt 7, reqIDoffset = 8000\<rparr>"
  have l: "load_config ?cf = YDict [''ib_idoffset'' \<mapsto> PyInt 7]"
    by (simp add: load_config_def)
  have t1: "connectionIB_db_id_tracker ?cf PyNone PyNone
              = Inr (PyStr ''127.0.0.1'', PyInt 4001, PyInt 7)"
    by (simp add: connectionIB_db_id_tracker_dict [OF l] by_precedence_def)
  have t2: "connectionIB_db_id_tracker ?cf (PyStr ''10.0.0.5'') (PyInt 7497)
              = Inr (PyStr ''10.0.0.5'', PyInt 7497, PyInt 7)"
    by (simp add: connectionIB_db_id_tracker_dict [OF l] by_precedence_def)
  have g1: "get_next_clientid 7 \<lparr>collection = [], logged = []\<rparr>
              = Inr (7, \<lparr>collection = [7], logged = [Msg_Locked_ID 7]\<rparr>)"
    by (simp add: get_next_clientid_eq next_id_from_def)
  have g2: "get_next_clientid 7 \<lparr>collection = [7], logged = [Msg_Locked_ID 7]\<rparr>
              = Inr (8, \<lparr>collection = [7, 8], logged = [Msg_Locked_ID 7, Msg_Locked_ID 8]\<rparr>)"
    by code_simp
  have i1: "connectionIB_init ?cf None PyNone PyNone \<lparr>collection = [], logged = []\<rparr>
              = Inr (?self1, \<lparr>collection = [7], logged = [Msg_Locked_ID 7]\<rparr>)"
    by (simp add: connectionIB_init_def t1 tracker_return_valid_client_id_def
          return_valid_client_id_def g1)
  have i2: "connectionIB_init ?cf None (PyStr ''10.0.0.5'') (PyInt 7497)
              \<lparr>collection = [7], logged = [Msg_Locked_ID 7]\<rparr>
              = Inr (?self2, \<lparr>collection = [7, 8], logged = [Msg_Locked_ID 7, Msg_Locked_ID 8]\<rparr>)"
    by (simp add: connectionIB_init_def t2 tracker_return_valid_client_id_def
          return_valid_client_id_def g2)
  show ?thesis
    using connectionIB_idoffset_independent
            [where config_file = ?cf and ?ipaddress1.0 = PyNone and ?port1.0 = PyNone
               and ?ipaddress2.0 = "PyStr ''10.0.0.5''" and ?port2.0 = "PyInt 7497"
               and ?a1.0 = "PyStr ''127.0.0.1''" and ?p1.0 = "PyInt 4001"
               and ?idoffset1.0 = "PyInt 7"
               and ?a2.0 = "PyStr ''10.0.0.5''" and ?p2.0 = "PyInt 7497"
               and ?idoffset2.0 = "PyInt 7"
               and ?client1.0 = None and ?client2.0 = None
               and ?s1.0 = "\<lparr>collection = [], logged = []\<rparr>"
               and ?s2.0 = "\<lparr>collection = [7], logged = [Msg_Locked_ID 7]\<rparr>"
               and ?self1.0 = ?self1 and ?self2.0 = ?self2
               and ?s1'.0 = "\<lparr>collection = [7], logged = [Msg_Locked_ID 7]\<rparr>"
               and ?s2'.0 = "\<lparr>collection = [7, 8], logged = [Msg_Locked_ID 7, Msg_Locked_ID 8]\<rparr>"
               and d = "[''ib_idoffset'' \<mapsto> PyInt 7]"]
          l t1 t2 i1 i2
    by simp
qed

text \<open>
  C8. A connection that is built hands the protocol client the request-identifier offset
  \<open>client * 1000\<close>, where \<open>client\<close> is the ID the tracker allocated for it. For two
  connections with distinct client ids, the 1000 identifiers from the one offset on and
  the 1000 identifiers from the other offset on have none in common.
\<close>

theorem connectionIB_reqIDoffset:
  assumes "connectionIB_init config_file1 client1 ipaddress1 port1 s1 = Inr (self1, s1')"
    and "connectionIB_init config_file2 client2 ipaddress2 port2 s2 = Inr (self2, s2')"
  shows "tracker_return_valid_client_id (db_id_tracker self1) client1 s1
           = Inr (config_client (underscore_ib_connection_config self1), s1')
         \<and> reqIDoffset self1 = config_client (underscore_ib_connection_config self1) * 1000
         \<and> reqIDoffset self2 = config_client (underscore_ib_connection_config self2) * 1000
         \<and> (config_client (underscore_ib_connection_config self1)
               \<noteq> config_client (underscore_ib_connection_config self2)
             \<longrightarrow> {reqIDoffset self1 ..< reqIDoffset self1 + 1000}
                   \<inter> {reqIDoffset self2 ..< reqIDoffset self2 + 1000} = {})"
  using connectionIB_init_Inr [OF assms(1)] connectionIB_init_Inr [OF assms(2)]
  by (auto simp del: Int_atLeastLessThan dest: blocks_disjoint)

theorem connectionIB_reqIDoffset_witness:
  "connectionIB_init Unreadable None PyNone PyNone \<lparr>collection = [], logged = []\<rparr>
     = Inr (\<lparr>underscore_ib_connection_config =
               \<lparr>config_ipaddress = PyStr ''127.0.0.1'', config_port = PyInt 4001, config_client = 1\<rparr>,
             db_id_tracker = PyInt 1, reqIDoffset = 1000\<rparr>,
            \<lparr>collection = [1], logged = [Msg_Locked_ID 1]\<rparr>)
   \<and> connectionIB_init Unreadable None PyNone PyNone \<lparr>collection = [1], logged = [Msg_Locked_ID 1]\<rparr>
     = Inr (\<lparr>underscore_ib_connection_config =
               \<lparr>config_ipaddress = PyStr ''127.0.0.1'', config_port = PyInt 4001, config_client = 2\<rparr>,
             db_id_tracker = PyInt 1, reqIDoffset = 2000\<rparr>,
            \<lparr>collection = [1, 2], logged = [Msg_Locked_ID 1, Msg_Locked_ID 2]\<rparr>)
   \<and> (1::int) \<noteq> 2
   \<and> {1000 ..< 1000 + 1000} \<inter> {2000 ..< 2000 + (1000::int)} = {}"
proof -
  have l: "load_config Unreadable = YDict Map.empty"
    by (simp add: load_config_def)
  have t: "connectionIB_db_id_tracker Unreadable PyNone PyNone
              = Inr (PyStr ''127.0.0.1'', PyInt 4001, PyInt 1)"
    by (simp add: connectionIB_db_id_tracker_dict [OF l] by_precedence_def DEFAULT_IB_IDOFFSET_def)
  have g1: "get_next_clientid 1 \<lparr>collection = [], logged = []\<rparr>
              = Inr (1, \<lparr>collection = [1], logged = [Msg_Locked_ID 1]\<rparr>)"
    by (simp add: get_next_clientid_eq next_id_from_def)
  have g2: "get_next_clientid 1 \<lparr>collection = [1], logged = [Msg_Locked_ID 1]\<rparr>
              = Inr (2, \<lparr>collection = [1, 2], logged = [Msg_Locked_ID 1, Msg_Locked_ID 2]\<rparr>)"
    by code_simp
  have i1: "connectionIB_init Unreadable None PyNone PyNone \<lparr>collection = [], logged = []\<rparr>
     = Inr (\<lparr>underscore_ib_connection_config =
               \<lparr>config_ipaddress = PyStr ''127.0.0.1'', config_port = PyInt 4001, config_client = 1\<rparr>,
             db_id_tracker = PyInt 1, reqIDoffset = 1000\<rparr>,
            \<lparr>collection = [1], logged = [Msg_Locked_ID 1]\<rparr>)"
    by (simp add: connectionIB_init_def t tracker_return_valid_client_id_def
          return_valid_client_id_def g1)
  have i2: "connectionIB_init Unreadable None PyNone PyNone
              \<lparr>collection = [1], logged = [Msg_Locked_ID 1]\<rparr>
     = Inr (\<lparr>underscore_ib_connection_config =
               \<lparr>config_ipaddress = PyStr ''127.0.0.1'', config_port = PyInt 4001, config_client = 2\<rparr>,
             db_id_tracker = PyInt 1, reqIDoffset = 2000\<rparr>,
            \<lparr>collection = [1, 2], logged = [Msg_Locked_ID 1, Msg_Locked_ID 2]\<rparr>)"
    by (simp add: connectionIB_init_def t tracker_return_valid_client_id_def
          return_valid_client_id_def g2)
  show ?thesis
    using connectionIB_reqIDoffset [OF i1 i2] i1 i2
    by (simp del: Int_atLeastLessThan)
qed

text \<open>
  C4. \<^verbatim>\<open>close_connection\<close> always returns, whether \<^verbatim>\<open>disconnect\<close> returned or raised.
  It calls \<^verbatim>\<open>release_clientid\<close> once, for the client id of the connection; a raised
  exception is logged as a warning. When the collection holds each ID at most once (the
  unique index), the client id is not held afterwards; the records of other IDs stay.
\<close>

theorem close_connection_releases:
  "\<exists>s'. close_connection self disconnect s = Inr s'
        \<and> released (logged s') =
            released (logged s) @ [config_client (underscore_ib_connection_config self)]
        \<and> (distinct (collection s) \<longrightarrow>
             config_client (underscore_ib_connection_config self) \<notin> set (collection s'))
        \<and> filter (\<lambda>d. d \<noteq> config_client (underscore_ib_connection_config self)) (collection s')
            = filter (\<lambda>d. d \<noteq> config_client (underscore_ib_connection_config self)) (collection s)
        \<and> ((\<exists>e. disconnect = Inl e) \<longrightarrow> Warn_disconnect_failed \<in> set (logged s'))"
  by (cases disconnect)
     (simp_all add: close_connection_def release_clientid_def delete_one_def Let_def
        released_append remove1_keeps_others)

theorem close_connection_releases_witness:
  "distinct (collection \<lparr>collection = [1, 2], logged = [Msg_Locked_ID 1, Msg_Locked_ID 2]\<rparr>)
   \<and> (\<exists>e. (Inl OSError :: error + unit) = Inl e)
   \<and> close_connection
        \<lparr>underscore_ib_connection_config =
           \<lparr>config_ipaddress = PyStr ''127.0.0.1'', config_port = PyInt 4001, config_client = 2\<rparr>,
         db_id_tracker = PyInt 1, reqIDoffset = 2000\<rparr>
        (Inl OSError)
        \<lparr>collection = [1, 2], logged = [Msg_Locked_ID 1, Msg_Locked_ID 2]\<rparr>
     = Inr \<lparr>collection = [1],
            logged = [Msg_Locked_ID 1, Msg_Locked_ID 2,
                      Msg_Terminating (PyStr ''127.0.0.1'') (PyInt 4001) 2,
                      Warn_disconnect_failed, Msg_Released_ID 2]\<rparr>
   \<and> 2 \<notin> set [1::int]"
  using close_connection_releases
          [of "\<lparr>underscore_ib_connection_config =
                 \<lparr>config_ipaddress = PyStr ''127.0.0.1'', config_port = PyInt 4001, config_client = 2\<rparr>,
               db_id_tracker = PyInt 1, reqIDoffset = 2000\<rparr>"
              "Inl OSError"
              "\<lparr>collection = [1, 2], logged = [Msg_Locked_ID 1, Msg_Locked_ID 2]\<rparr>"]
  by (simp add: close_connection_def release_clientid_def delete_one_def Let_def)

end
